theory Spec2Isabelle
  imports Main "HOL-Library.Product_Lexorder"
begin

section \<open>Python and pandas values used by the ingestion service\<close>

text \<open>
  The two exception classes the handlers of \<^verbatim>\<open>ingestor.py\<close> tell apart:
  \<^verbatim>\<open>except Exception\<close> catches every instance of \<open>Exception\<close> (the text is \<open>str(e)\<close>),
  and lets \<open>KeyboardInterrupt\<close>, which derives from \<open>BaseException\<close> only, pass.
\<close>

datatype exn = KeyboardInterrupt | Exception string

datatype level = INFO | WARNING | ERROR | CRITICAL

text \<open>
  What a function does to the outside, in program order: a record written through
  \<^verbatim>\<open>logger\<close>, a call of \<^verbatim>\<open>yf.download\<close>, of \<^verbatim>\<open>datetime.datetime.now\<close>,
  of \<^verbatim>\<open>DataFrame.to_parquet\<close> (with its path) and of \<^verbatim>\<open>time.sleep\<close> (with its seconds).
\<close>

datatype effect =
    Log level string
  | Download "string list"
  | Now
  | ToParquet string
  | Sleep nat

text \<open>
  A pandas \<open>Timestamp\<close> is a \<^verbatim>\<open>datetime.datetime\<close>: the accessors \<^verbatim>\<open>.dt.year\<close>,
  \<^verbatim>\<open>.dt.month\<close> and \<^verbatim>\<open>.dt.day\<close> read its calendar fields.
\<close>

record timestamp =
  year :: int
  month :: int
  day :: int
  hour :: nat
  minute :: nat
  second :: nat

text \<open>
  The wide frame \<^verbatim>\<open>data['Close']\<close>: a named index of timestamps and one column of
  prices per ticker, in order. A cell is \<open>None\<close> where pandas holds \<open>NaN\<close>. The code does
  no arithmetic on prices, so their type is left open. pandas keeps every column as long
  as the index; \<open>rectangular\<close> says so for a value of the model.
\<close>

record 'p DataFrame =
  index_name :: "string option"
  index :: "timestamp list"
  columns :: "(string \<times> 'p option list) list"

definition rectangular :: "'p DataFrame \<Rightarrow> bool" where
  "rectangular df = list_all (\<lambda>c. length (snd c) = length (index df)) (columns df)"

text \<open>\<^verbatim>\<open>pd.DataFrame()\<close> and the property \<^verbatim>\<open>DataFrame.empty\<close> (some axis has length 0).\<close>

definition empty_frame :: "'p DataFrame" where
  "empty_frame = \<lparr>index_name = None, index = [], columns = []\<rparr>"

definition df_empty :: "'p DataFrame \<Rightarrow> bool" where
  "df_empty df = (index df = [] \<or> columns df = [])"

text \<open>
  What \<^verbatim>\<open>yf.download\<close> returns for a list of tickers: the same index, and columns
  labelled by a pair (price field, ticker).
\<close>

record 'p download =
  d_index_name :: "string option"
  d_index :: "timestamp list"
  d_columns :: "((string \<times> string) \<times> 'p option list) list"

definition download_empty :: "'p download \<Rightarrow> bool" where
  "download_empty data = (d_index data = [] \<or> d_columns data = [])"

text \<open>
  \<^verbatim>\<open>data[key]\<close> on two-level columns: the columns whose first level is \<open>key\<close>, labelled
  by their second level, over the same index; \<open>None\<close> stands for the \<open>KeyError\<close> raised
  when there is none.
\<close>

definition getitem :: "'p download \<Rightarrow> string \<Rightarrow> 'p DataFrame option" where
  "getitem data key =
     (let sel = filter (\<lambda>c. fst (fst c) = key) (d_columns data)
      in if sel = [] then None
         else Some \<lparr>index_name = d_index_name data, index = d_index data,
                    columns = map (\<lambda>c. (snd (fst c), snd c)) sel\<rparr>)"

section \<open>Configuration\<close>

definition ASSETS :: "string list" where
  "ASSETS =
    [''HGLG11.SA'', ''KNRI11.SA'', ''MXRF11.SA'', ''XPML11.SA'', ''VISC11.SA'',
     ''ALZR11.SA'', ''HGRU11.SA'', ''BTLG11.SA'', ''XPLG11.SA'',
     ''CPTS11.SA'', ''RECR11.SA'', ''VGHF11.SA'', ''KNCR11.SA'',
     ''PETR4.SA'', ''VALE3.SA'', ''ITUB4.SA'', ''BBDC4.SA'', ''BBAS3.SA'',
     ''WEGE3.SA'', ''ABEV3.SA'', ''B3SA3.SA'', ''RENT3.SA'',
     ''SUZB3.SA'', ''GGBR4.SA'', ''VIVT3.SA'', ''PRIO3.SA'',
     ''BOVA11.SA'', ''IVVB11.SA'', ''SMAL11.SA'', ''HASH11.SA'', ''NASD11.SA'',
     ''XINA11.SA'', ''GOLD11.SA'', ''AAPL34.SA'', ''MSFT34.SA'',
     ''NVDC34.SA'', ''AMZO34.SA'', ''GOGL34.SA'', ''TSLA34.SA'', ''MELI34.SA'']"

definition INTERVAL_SECONDS :: nat where
  "INTERVAL_SECONDS = 120"

definition BASE_PATH :: string where
  "BASE_PATH = ''datalake''"

section \<open>\<^verbatim>\<open>fetch_data\<close>\<close>

text \<open>
  The argument \<open>api\<close> is what the one call of \<^verbatim>\<open>yf.download\<close> does: it raises (\<open>Inl\<close>)
  or returns a frame. The result is the effects of the call and what the caller gets:
  \<open>Inl\<close> an exception that leaves \<^verbatim>\<open>fetch_data\<close>, \<open>Inr\<close> the frame it returns.
\<close>

definition fetch_data ::
  "(exn + 'p download) \<Rightarrow> string list \<Rightarrow> effect list \<times> (exn + 'p DataFrame)" where
  "fetch_data api assets =
     (case api of
        Inl KeyboardInterrupt \<Rightarrow> ([Download assets], Inl KeyboardInterrupt)
      | Inl (Exception e) \<Rightarrow>
          ([Download assets, Log ERROR (''Error fetching data: '' @ e)], Inr empty_frame)
      | Inr data \<Rightarrow>
          if download_empty data
          then ([Download assets, Log WARNING ''No data returned from API.''], Inr empty_frame)
          else (case getitem data ''Close'' of
                  None \<Rightarrow>
                    ([Download assets, Log ERROR ''Column 'Close' not found in API response.''],
                     Inr empty_frame)
                | Some df_close \<Rightarrow> ([Download assets], Inr df_close)))"

section \<open>\<^verbatim>\<open>process_data\<close>\<close>

text \<open>
  A row of the melted frame, and a row of the frame \<^verbatim>\<open>process_data\<close> returns (the
  three partition columns added). \<open>Close\<close> stays a nullable float column throughout.
\<close>

record 'p melted =
  Datetime :: timestamp
  Ticker :: string
  Close :: "'p option"

record 'p QuoteRecord = "'p melted" +
  ano :: int
  mes :: int
  dia :: int

text \<open>
  \<^verbatim>\<open>df.reset_index()\<close>: the index becomes the first column, under the index's name
  (\<open>index\<close>, or \<open>level_0\<close> when that is taken, for an unnamed index). pandas raises
  \<open>ValueError\<close> when a column of that name is already there; \<open>Inl\<close> is its text.
\<close>

record 'p reset =
  time_col :: "string \<times> timestamp list"
  value_cols :: "(string \<times> 'p option list) list"

definition column_names :: "'p reset \<Rightarrow> string list" where
  "column_names fr = fst (time_col fr) # map fst (value_cols fr)"

definition reset_index :: "'p DataFrame \<Rightarrow> string + 'p reset" where
  "reset_index df =
     (let names = map fst (columns df);
          name = (case index_name df of
                    Some n \<Rightarrow> n
                  | None \<Rightarrow> if ''index'' \<in> set names then ''level_0'' else ''index'')
      in if name \<in> set names then Inl (''cannot insert '' @ name @ '', already exists'')
         else Inr \<lparr>time_col = (name, index df), value_cols = columns df\<rparr>)"

text \<open>
  \<^verbatim>\<open>melt(id_vars=['Datetime'], var_name='Ticker', value_name='Close')\<close> on a frame whose
  identifier column is the time column: pandas (2.x) raises \<open>ValueError\<close> when
  \<open>value_name\<close> is the name of a column of the frame; otherwise it unpivots column by
  column, each column over the rows in order, repeating the identifier column.
\<close>

definition melt_column :: "timestamp list \<Rightarrow> string \<times> 'p option list \<Rightarrow> 'p melted list" where
  "melt_column ts c =
     map (\<lambda>tv. \<lparr>Datetime = fst tv, Ticker = fst c, Close = snd tv\<rparr>) (zip ts (snd c))"

definition melt :: "'p reset \<Rightarrow> string + 'p melted list" where
  "melt fr =
     (if ''Close'' \<in> set (column_names fr)
      then Inl ''value_name (Close) cannot match an element in the DataFrame columns.''
      else Inr (concat (map (melt_column (snd (time_col fr))) (value_cols fr))))"

text \<open>\<^verbatim>\<open>dropna(subset=['Close'])\<close>: the rows whose \<open>Close\<close> is not \<open>NaN\<close>, in order.\<close>

definition dropna :: "'p melted list \<Rightarrow> 'p melted list" where
  "dropna rows = filter (\<lambda>r. Close r \<noteq> None) rows"

text \<open>
  The three assignments \<^verbatim>\<open>df_melted['ano'] = df_melted['Datetime'].dt.year\<close> (and
  \<open>mes\<close>, \<open>dia\<close>) are between columns of one frame, so they act row by row.
\<close>

definition add_partition_columns :: "'p melted \<Rightarrow> 'p QuoteRecord" where
  "add_partition_columns r =
     \<lparr>Datetime = Datetime r, Ticker = Ticker r, Close = Close r,
      ano = year (Datetime r), mes = month (Datetime r), dia = day (Datetime r)\<rparr>"

text \<open>
  \<^verbatim>\<open>process_data\<close> returns, in the model, the frame object it was given as the call
  leaves it (the assignment \<^verbatim>\<open>df.index.name = 'Datetime'\<close> writes to it), its effects, and
  the rows of the frame it returns (\<^verbatim>\<open>pd.DataFrame()\<close> has none). Every exception raised
  inside the \<^verbatim>\<open>try\<close> is an \<open>Exception\<close> and is caught there.
\<close>

definition process_data ::
  "'p DataFrame \<Rightarrow> 'p DataFrame \<times> effect list \<times> 'p QuoteRecord list" where
  "process_data df =
     (if df_empty df then (df, [], [])
      else
        let df1 = df\<lparr>index_name := Some ''Datetime''\<rparr> in
        case reset_index df1 of
          Inl e \<Rightarrow> (df1, [Log ERROR (''Error processing data: '' @ e)], [])
        | Inr df_reset \<Rightarrow>
            if ''Datetime'' \<notin> set (column_names df_reset)
            then (df1, [Log ERROR ''Datetime column missing after reset_index.''], [])
            else (case melt df_reset of
                    Inl e \<Rightarrow> (df1, [Log ERROR (''Error processing data: '' @ e)], [])
                  | Inr df_melted \<Rightarrow>
                      (df1, [], map add_partition_columns (dropna df_melted))))"

section \<open>The store and \<^verbatim>\<open>DataFrame.to_parquet\<close>\<close>

text \<open>
  A path is the store root followed by directory and file names; \<open>Hive c v\<close> is the
  directory name \<^verbatim>\<open>c=v\<close> of a partition column. A store is the directories and the
  files under it. A data file holds the rows of one partition without their partition
  columns; the two summary files of a dataset hold the partitions listed and the schema.
  \<open>Torn\<close> is what is left of a file that was opened for writing (which empties a file
  already there) and not finished.
\<close>

datatype seg = Name string | Hive string int

type_synonym path = "seg list"

datatype 'p contents =
    Part "'p melted list"
  | Metadata "(int \<times> int \<times> int) list"
  | CommonMetadata
  | Torn

record 'p store =
  dirs :: "path set"
  files :: "path \<Rightarrow> 'p contents option"

definition partition_key :: "'p QuoteRecord \<Rightarrow> int \<times> int \<times> int" where
  "partition_key r = (ano r, mes r, dia r)"

definition partition_dirs :: "string \<Rightarrow> int \<times> int \<times> int \<Rightarrow> path list" where
  "partition_dirs root k =
     (case k of (y, m, d) \<Rightarrow>
        [[Name root, Hive ''ano'' y],
         [Name root, Hive ''ano'' y, Hive ''mes'' m],
         [Name root, Hive ''ano'' y, Hive ''mes'' m, Hive ''dia'' d]])"

definition part_file :: "string \<Rightarrow> int \<times> int \<times> int \<Rightarrow> path" where
  "part_file root k =
     (case k of (y, m, d) \<Rightarrow>
        [Name root, Hive ''ano'' y, Hive ''mes'' m, Hive ''dia'' d, Name ''part.0.parquet''])"

definition data_columns :: "'p QuoteRecord \<Rightarrow> 'p melted" where
  "data_columns r = \<lparr>Datetime = Datetime r, Ticker = Ticker r, Close = Close r\<rparr>"

definition write_group ::
  "string \<Rightarrow> 'p QuoteRecord list \<Rightarrow> int \<times> int \<times> int \<Rightarrow> 'p store \<Rightarrow> 'p store" where
  "write_group root df k st =
     st\<lparr>dirs := dirs st \<union> set (partition_dirs root k),
        files := (files st)
          (part_file root k \<mapsto> Part (map data_columns (filter (\<lambda>r. partition_key r = k) df)))\<rparr>"

text \<open>
  What the file system lets one call of \<^verbatim>\<open>to_parquet\<close> do: write everything; raise
  before anything is written; raise after the root directory and the first \<open>n\<close>
  partition files are written, between two files (\<open>Breaks\<close>); or raise after them while
  the next file is being written (\<open>Tears\<close>), which leaves that file torn: the next
  partition file, or \<^verbatim>\<open>_metadata\<close> when every partition file is written.
\<close>

datatype disk = Writes | Refuses exn | Breaks nat exn | Tears nat exn

definition tear :: "string \<Rightarrow> (int \<times> int \<times> int) list \<Rightarrow> 'p store \<Rightarrow> 'p store" where
  "tear root pending st =
     (case pending of
        [] \<Rightarrow> st\<lparr>files := (files st)([Name root, Name ''_metadata''] \<mapsto> Torn)\<rparr>
      | k # ks \<Rightarrow>
          st\<lparr>dirs := dirs st \<union> set (partition_dirs root k),
             files := (files st)(part_file root k \<mapsto> Torn)\<rparr>)"

text \<open>
  \<^verbatim>\<open>df.to_parquet(path, engine='fastparquet', partition_cols=['ano','mes','dia'],
  compression='snappy', index=False)\<close>, as the fastparquet engine does it for a new
  dataset (its \<^verbatim>\<open>append\<close> is off): make the root directory; group the rows by the
  partition columns, groups in key order; for each group make the directory
  \<^verbatim>\<open>ano=Y/mes=M/dia=D\<close> and write the group to the file \<^verbatim>\<open>part.0.parquet\<close> in it;
  then write \<^verbatim>\<open>_metadata\<close> and \<^verbatim>\<open>_common_metadata\<close> in the root. Writing a file
  replaces a file of the same path, and a write that fails midway leaves the file it was
  writing torn, whatever that path held before. The second component is the exception
  raised, if any.
\<close>

definition to_parquet ::
  "disk \<Rightarrow> 'p QuoteRecord list \<Rightarrow> string \<Rightarrow> 'p store \<Rightarrow> 'p store \<times> exn option" where
  "to_parquet d df root st =
     (let keys = sort (remdups (map partition_key df));
          st0 = st\<lparr>dirs := insert [Name root] (dirs st)\<rparr>
      in case d of
           Refuses e \<Rightarrow> (st, Some e)
         | Breaks n e \<Rightarrow> (fold (write_group root df) (take n keys) st0, Some e)
         | Tears n e \<Rightarrow>
             (tear root (drop n keys) (fold (write_group root df) (take n keys) st0), Some e)
         | Writes \<Rightarrow>
             (let st1 = fold (write_group root df) keys st0
              in (st1\<lparr>files := (files st1)
                        ([Name root, Name ''_metadata''] \<mapsto> Metadata keys,
                         [Name root, Name ''_common_metadata''] \<mapsto> CommonMetadata)\<rparr>,
                  None)))"

section \<open>\<^verbatim>\<open>save_to_datalake\<close>\<close>

text \<open>\<^verbatim>\<open>strftime('%H%M%S')\<close>: two decimal digits for each of hour, minute and second.\<close>

definition two_digits :: "nat \<Rightarrow> string" where
  "two_digits n = [''0123456789'' ! (n div 10 mod 10), ''0123456789'' ! (n mod 10)]"

definition strftime_HMS :: "timestamp \<Rightarrow> string" where
  "strftime_HMS t = two_digits (hour t) @ two_digits (minute t) @ two_digits (second t)"

text \<open>
  The arguments \<open>now\<close> and \<open>d\<close> are what \<^verbatim>\<open>datetime.datetime.now()\<close> returns and what
  the file system lets \<^verbatim>\<open>to_parquet\<close> do. The result is the store after the call, the
  effects, and the exception that leaves the function (\<open>None\<close> when it returns, and then
  it returns Python's \<open>None\<close>). The name \<open>filename\<close> is bound as in the source, which
  does not use it afterwards.
\<close>

definition save_to_datalake ::
  "timestamp \<Rightarrow> disk \<Rightarrow> 'p QuoteRecord list \<Rightarrow> string \<Rightarrow> 'p store \<Rightarrow>
   'p store \<times> effect list \<times> exn option" where
  "save_to_datalake now d df base_path st =
     (if df = [] then (st, [], None)
      else
        let current_time = now;
            filename = ''market_data_'' @ strftime_HMS current_time @ ''.parquet''
        in case to_parquet d df base_path st of
             (st1, None) \<Rightarrow>
               (st1, [Now, ToParquet base_path,
                      Log INFO (''Data saved successfully to '' @ base_path)], None)
           | (st1, Some KeyboardInterrupt) \<Rightarrow>
               (st1, [Now, ToParquet base_path], Some KeyboardInterrupt)
           | (st1, Some (Exception e)) \<Rightarrow>
               (st1, [Now, ToParquet base_path,
                      Log ERROR (''Error saving to Data Lake: '' @ e)], None))"

section \<open>The scheduler loop \<^verbatim>\<open>main\<close>\<close>

text \<open>
  \<^verbatim>\<open>time.sleep\<close> with a constant argument returns, or is cut short by the interrupt
  signal, whose handler raises \<open>KeyboardInterrupt\<close>.
\<close>

datatype sleep = Slept | Interrupted

text \<open>
  What the outside does during one pass of the loop: the outcome of \<^verbatim>\<open>yf.download\<close>,
  the wall clock, the file system, an unexpected \<open>Exception\<close> (its text) raised by the
  statements that close the \<^verbatim>\<open>try\<close> body, and the two sleeps. A field is read only
  when the pass reaches the call it stands for.
\<close>

record 'p event =
  api :: "exn + 'p download"
  clock :: timestamp
  fs :: disk
  fault :: "string option"
  nap :: sleep
  backoff :: sleep

record 'p state =
  trace :: "effect list"
  store :: "'p store"

definition emit :: "effect list \<Rightarrow> 'p state \<Rightarrow> 'p state" where
  "emit xs s = s\<lparr>trace := trace s @ xs\<rparr>"

text \<open>The stages of one pass, after the fetch returned \<open>df_raw\<close> (lines 131 to 137).\<close>

definition stages :: "'p event \<Rightarrow> 'p DataFrame \<Rightarrow> 'p state \<Rightarrow> 'p state \<times> exn option" where
  "stages ev df_raw s =
     (if \<not> df_empty df_raw then
        (case process_data df_raw of
           (df_raw1, px, df_processed) \<Rightarrow>
             if df_processed \<noteq> [] then
               (case save_to_datalake (clock ev) (fs ev) df_processed BASE_PATH (store (emit px s)) of
                  (st1, sx, r) \<Rightarrow> (emit sx ((emit px s)\<lparr>store := st1\<rparr>), r))
             else (emit (px @ [Log WARNING ''Processed data is empty.'']) s, None))
      else (s, None))"

text \<open>The \<^verbatim>\<open>try\<close> body of one pass; the second component is the exception it raises.\<close>

definition loop_body :: "'p event \<Rightarrow> 'p state \<Rightarrow> 'p state \<times> exn option" where
  "loop_body ev s =
     (case fetch_data (api ev) ASSETS of
        (fx, Inl e) \<Rightarrow> (emit (Log INFO ''Fetching market data...'' # fx) s, Some e)
      | (fx, Inr df_raw) \<Rightarrow>
          (case stages ev df_raw (emit (Log INFO ''Fetching market data...'' # fx) s) of
             (s1, Some e) \<Rightarrow> (s1, Some e)
           | (s1, None) \<Rightarrow>
               (case fault ev of
                  Some m \<Rightarrow> (s1, Some (Exception m))
                | None \<Rightarrow>
                    (case nap ev of
                       Slept \<Rightarrow>
                         (emit [Log INFO ''Sleeping for 120 seconds...'', Sleep INTERVAL_SECONDS] s1,
                          None)
                     | Interrupted \<Rightarrow>
                         (emit [Log INFO ''Sleeping for 120 seconds...'', Sleep INTERVAL_SECONDS] s1,
                          Some KeyboardInterrupt)))))"

text \<open>
  After a pass the loop goes on (\<open>Running\<close>), has left through \<^verbatim>\<open>break\<close> (\<open>Stopped\<close>),
  or was left by the \<open>KeyboardInterrupt\<close> that cut the sleep of the second handler short,
  which no handler catches (\<open>Killed\<close>).
\<close>

datatype status = Running | Stopped | Killed

definition cycle :: "'p event \<Rightarrow> 'p state \<Rightarrow> 'p state \<times> status" where
  "cycle ev s =
     (case loop_body ev s of
        (s1, None) \<Rightarrow> (s1, Running)
      | (s1, Some KeyboardInterrupt) \<Rightarrow> (emit [Log INFO ''Service stopped by user.''] s1, Stopped)
      | (s1, Some (Exception e)) \<Rightarrow>
          (emit [Log CRITICAL (''Critical error in main loop: '' @ e), Sleep 60] s1,
           case backoff ev of Slept \<Rightarrow> Running | Interrupted \<Rightarrow> Killed))"

text \<open>
  \<^verbatim>\<open>while True\<close> over the events of the passes observed so far: the loop has no exit
  of its own, so once they are all consumed it is still \<open>Running\<close>.
\<close>

fun main_loop :: "'p event list \<Rightarrow> 'p state \<Rightarrow> 'p state \<times> status" where
  "main_loop [] s = (s, Running)"
| "main_loop (ev # evs) s =
     (case cycle ev s of
        (s1, Running) \<Rightarrow> main_loop evs s1
      | (s1, Stopped) \<Rightarrow> (s1, Stopped)
      | (s1, Killed) \<Rightarrow> (s1, Killed))"

definition main :: "'p event list \<Rightarrow> 'p store \<Rightarrow> 'p state \<times> status" where
  "main evs st =
     main_loop evs \<lparr>trace = [Log INFO ''Starting Financial Data Ingestion Service...''], store = st\<rparr>"

section \<open>The dashboard\<close>

text \<open>
  What the page shows, in order. \<open>fs_view\<close> is the file system as \<^verbatim>\<open>dashboard.py\<close>
  sees it: whether a path exists, and what \<^verbatim>\<open>pd.read_parquet\<close> does at a path (it
  raises, or returns the rows of the dataset, partition columns included).
\<close>

datatype ui = StTitle string | StWarning string | StInfo string | StError string

record 'p fs_view =
  path_exists :: "string \<Rightarrow> bool"
  read_parquet :: "string \<Rightarrow> exn + 'p QuoteRecord list"

definition DATA_PATH :: string where
  "DATA_PATH = ''datalake''"

text \<open>
  \<^verbatim>\<open>load_data\<close>: the \<open>Datetime\<close> column read back already holds timestamps, so the
  conversion \<^verbatim>\<open>pd.to_datetime\<close> leaves it as it is. A frame is \<^verbatim>\<open>empty\<close> when it has
  no rows. The call modelled is one that runs the body: the cache that
  \<^verbatim>\<open>st.cache_data\<close> puts in front of it is left out.
\<close>

definition load_data :: "'p fs_view \<Rightarrow> string \<Rightarrow> ui list \<times> (exn + 'p QuoteRecord list)" where
  "load_data v path =
     (if \<not> path_exists v path then ([], Inr [])
      else case read_parquet v path of
             Inl KeyboardInterrupt \<Rightarrow> ([], Inl KeyboardInterrupt)
           | Inl (Exception e) \<Rightarrow> ([StError (''Error loading data: '' @ e)], Inr [])
           | Inr df \<Rightarrow> ([], Inr df))"

text \<open>
  \<^verbatim>\<open>main\<close> of the dashboard. The filters, indicators, chart and table drawn for a
  frame with rows (lines 55 to 127) are the parameter \<open>page\<close>.
\<close>

definition dashboard_main ::
  "'p fs_view \<Rightarrow> ('p QuoteRecord list \<Rightarrow> ui list) \<Rightarrow> ui list \<times> exn option" where
  "dashboard_main v page =
     (if \<not> path_exists v DATA_PATH
      then ([StTitle ''Financial Market Data Analysis'',
             StWarning ''Data Lake directory not found. Please run the ingestor script first.''],
            None)
      else case load_data v DATA_PATH of
             (out, Inl e) \<Rightarrow> (StTitle ''Financial Market Data Analysis'' # out, Some e)
           | (out, Inr df) \<Rightarrow>
               if df = []
               then (StTitle ''Financial Market Data Analysis'' # out @
                       [StInfo ''No data available in the Data Lake yet.''], None)
               else (StTitle ''Financial Market Data Analysis'' # out @ page df, None))"

section \<open>Vocabulary of the claims\<close>

text \<open>
  The definitions of this section are not code of the repository: they name what the
  claims speak of, so that the theorems below can be stated and run on sample values.

  \<open>present_cells\<close> counts the cells of a snapshot that hold a price. \<open>column_major\<close>
  lists the present cells symbol by symbol in column order, each symbol's cells in row
  order, as (timestamp, symbol, price).
\<close>

definition present_cells :: "'p DataFrame \<Rightarrow> nat" where
  "present_cells df =
     sum_list (map (\<lambda>c. length (filter (\<lambda>v. v \<noteq> None) (snd c))) (columns df))"

definition column_major :: "'p DataFrame \<Rightarrow> (timestamp \<times> string \<times> 'p option) list" where
  "column_major df =
     concat (map (\<lambda>c. map (\<lambda>tv. (fst tv, fst c, snd tv))
                          (filter (\<lambda>tv. snd tv \<noteq> None) (zip (index df) (snd c))))
                 (columns df))"

text \<open>
  The fetch stage fails when \<^verbatim>\<open>yf.download\<close> raises an \<open>Exception\<close>, when it comes back
  with an empty answer (what it does when it meets a transport failure and keeps the
  exception to itself), or when its answer has no \<open>Close\<close> field (parse).
\<close>

definition fetch_failed :: "exn + 'p download \<Rightarrow> bool" where
  "fetch_failed a =
     (case a of
        Inl KeyboardInterrupt \<Rightarrow> False
      | Inl (Exception e) \<Rightarrow> True
      | Inr data \<Rightarrow> download_empty data \<or> getitem data ''Close'' = None)"

text \<open>
  The external stop signal reaches a pass when one of its blocking calls (the download,
  the write, either sleep) is cut short by \<open>KeyboardInterrupt\<close>.
\<close>

definition raises_interrupt :: "disk \<Rightarrow> bool" where
  "raises_interrupt d =
     (case d of
        Writes \<Rightarrow> False
      | Refuses e \<Rightarrow> e = KeyboardInterrupt
      | Breaks n e \<Rightarrow> e = KeyboardInterrupt
      | Tears n e \<Rightarrow> e = KeyboardInterrupt)"

definition stop_signal :: "'p event \<Rightarrow> bool" where
  "stop_signal ev =
     (api ev = Inl KeyboardInterrupt \<or> raises_interrupt (fs ev) \<or>
      nap ev = Interrupted \<or> backoff ev = Interrupted)"

text \<open>
  The store at \<open>path\<close> is missing, or it is there and holds no records: reading it
  raises an \<open>Exception\<close> or returns a frame without rows.
\<close>

definition no_records :: "'p fs_view \<Rightarrow> string \<Rightarrow> bool" where
  "no_records v path =
     (if path_exists v path
      then (case read_parquet v path of
              Inl KeyboardInterrupt \<Rightarrow> False
            | Inl (Exception e) \<Rightarrow> True
            | Inr df \<Rightarrow> df = [])
      else True)"

section \<open>Sample values\<close>

text \<open>
  The scenario of the specification (two instants, the symbols AAA and BBB, one missing
  price; prices in tenths), a snapshot one of whose symbols is called \<open>Datetime\<close>, and
  the events and stores the witnesses run on.
\<close>

definition t_0930 :: timestamp where
  "t_0930 = \<lparr>year = 2024, month = 1, day = 2, hour = 9, minute = 30, second = 0\<rparr>"

definition t_0931 :: timestamp where
  "t_0931 = \<lparr>year = 2024, month = 1, day = 2, hour = 9, minute = 31, second = 0\<rparr>"

definition scenario :: "int DataFrame" where
  "scenario = \<lparr>index_name = None, index = [t_0930, t_0931],
               columns = [(''AAA'', [Some 105, Some 106]), (''BBB'', [None, Some 201])]\<rparr>"

definition reserved_symbol :: "int DataFrame" where
  "reserved_symbol = \<lparr>index_name = Some ''Datetime'', index = [t_0930],
                      columns = [(''AAA'', [Some 105]), (''Datetime'', [None])]\<rparr>"

definition no_quotes :: "int download" where
  "no_quotes = \<lparr>d_index_name = Some ''Datetime'', d_index = [t_0930],
                d_columns = [((''Open'', ''AAA''), [Some 104])]\<rparr>"

definition no_answer :: "int download" where
  "no_answer = \<lparr>d_index_name = None, d_index = [], d_columns = []\<rparr>"

definition quote_0930 :: "int QuoteRecord" where
  "quote_0930 =
     \<lparr>Datetime = t_0930, Ticker = ''AAA'', Close = Some 105, ano = 2024, mes = 1, dia = 2\<rparr>"

definition quote_0931 :: "int QuoteRecord" where
  "quote_0931 =
     \<lparr>Datetime = t_0931, Ticker = ''AAA'', Close = Some 106, ano = 2024, mes = 1, dia = 2\<rparr>"

definition empty_store :: "int store" where
  "empty_store = \<lparr>dirs = {}, files = Map.empty\<rparr>"

definition first_write :: "int store" where
  "first_write = fst (save_to_datalake t_0930 Writes [quote_0930] BASE_PATH empty_store)"

definition second_write :: "int store" where
  "second_write = fst (save_to_datalake t_0931 Writes [quote_0931] BASE_PATH first_write)"

definition outage :: "int event" where
  "outage = \<lparr>api = Inl (Exception ''connection timed out''), clock = t_0930, fs = Writes,
             fault = None, nap = Slept, backoff = Slept\<rparr>"

definition silence :: "int event" where
  "silence = \<lparr>api = Inr \<lparr>d_index_name = None, d_index = [], d_columns = []\<rparr>, clock = t_0930,
              fs = Writes, fault = None, nap = Slept, backoff = Slept\<rparr>"

definition cut_short :: "int event" where
  "cut_short = \<lparr>api = Inl (Exception ''connection timed out''), clock = t_0930, fs = Writes,
                fault = None, nap = Interrupted, backoff = Slept\<rparr>"

definition glitch :: "int event" where
  "glitch = \<lparr>api = Inl (Exception ''connection timed out''), clock = t_0930, fs = Writes,
             fault = Some ''out of memory'', nap = Slept, backoff = Slept\<rparr>"

definition started :: "int state" where
  "started = \<lparr>trace = [Log INFO ''Starting Financial Data Ingestion Service...''],
              store = empty_store\<rparr>"

definition bare_directory :: "int fs_view" where
  "bare_directory =
     \<lparr>path_exists = (\<lambda>p. True), read_parquet = (\<lambda>p. Inl (Exception ''No files in dir''))\<rparr>"

section \<open>Properties of \<^verbatim>\<open>process_data\<close>\<close>

subsection \<open>The three components of the result\<close>

lemma process_data_rows:
  "snd (snd (process_data df)) =
     (if df_empty df \<or> ''Datetime'' \<in> set (map fst (columns df)) \<or>
         ''Close'' \<in> set (map fst (columns df))
      then []
      else map add_partition_columns
             (dropna (concat (map (melt_column (index df)) (columns df)))))"
  by (simp add: process_data_def reset_index_def melt_def column_names_def Let_def)

lemma process_data_effects:
  "fst (snd (process_data df)) =
     (if df_empty df then []
      else if ''Datetime'' \<in> set (map fst (columns df))
      then [Log ERROR ''Error processing data: cannot insert Datetime, already exists'']
      else if ''Close'' \<in> set (map fst (columns df))
      then [Log ERROR
             ''Error processing data: value_name (Close) cannot match an element in the DataFrame columns.'']
      else [])"
  by (simp add: process_data_def reset_index_def melt_def column_names_def Let_def)

lemma process_data_frame:
  "fst (process_data df) =
     (if df_empty df then df else df\<lparr>index_name := Some ''Datetime''\<rparr>)"
  by (simp add: process_data_def reset_index_def melt_def column_names_def Let_def)

subsection \<open>Counting the rows that survive \<open>dropna\<close>\<close>

lemma dropna_append: "dropna (xs @ ys) = dropna xs @ dropna ys"
  by (simp add: dropna_def)

lemma dropna_melt_column_length:
  "length ts = length vs \<Longrightarrow>
   length (dropna (melt_column ts (s, vs))) = length (filter (\<lambda>v. v \<noteq> None) vs)"
  by (induction ts vs rule: list_induct2) (simp_all add: dropna_def melt_column_def)

lemma melted_count:
  "list_all (\<lambda>c. length (snd c) = length ts) cols \<Longrightarrow>
   length (dropna (concat (map (melt_column ts) cols))) =
   sum_list (map (\<lambda>c. length (filter (\<lambda>v. v \<noteq> None) (snd c))) cols)"
proof (induction cols)
  case Nil
  then show ?case by (simp add: dropna_def)
next
  case (Cons c cols)
  obtain s vs where c: "c = (s, vs)" by (cases c)
  from Cons.prems have len: "length ts = length vs"
    and rest: "list_all (\<lambda>c. length (snd c) = length ts) cols"
    by (simp_all add: c)
  have "length (dropna (melt_column ts c)) = length (filter (\<lambda>v. v \<noteq> None) vs)"
    unfolding c using len by (rule dropna_melt_column_length)
  with Cons.IH [OF rest] show ?case
    by (simp add: dropna_append c)
qed

lemma present_cells_empty:
  "rectangular df \<Longrightarrow> df_empty df \<Longrightarrow> present_cells df = 0"
  by (auto simp: rectangular_def df_empty_def present_cells_def list_all_iff)

lemma partition_columns_of_row:
  "r \<in> set (map add_partition_columns (dropna rows)) \<Longrightarrow>
   Close r \<noteq> None \<and> ano r = year (Datetime r) \<and>
   mes r = month (Datetime r) \<and> dia r = day (Datetime r)"
  by (auto simp: add_partition_columns_def dropna_def)

lemma process_data_row_keys:
  assumes "r \<in> set (snd (snd (process_data df)))"
  shows "Close r \<noteq> None \<and> ano r = year (Datetime r) \<and>
         mes r = month (Datetime r) \<and> dia r = day (Datetime r)"
proof -
  from assms
  have "r \<in> set (map add_partition_columns
                    (dropna (concat (map (melt_column (index df)) (columns df)))))"
    by (simp add: process_data_rows split: if_splits)
  then show ?thesis by (rule partition_columns_of_row)
qed

text \<open>
  Claim C1, as amended. For every rectangular snapshot none of whose symbols is called
  \<open>Datetime\<close> or \<open>Close\<close>, \<^verbatim>\<open>process_data\<close> returns exactly one record per present
  cell; every record it returns (for any snapshot) has a price and carries the year,
  month and day of its own timestamp as partition keys; and a snapshot without a present
  cell (empty, or all null) gives no record and no error record in the log.
\<close>

theorem process_data_one_record_per_present_cell:
  assumes "rectangular df"
    and "''Datetime'' \<notin> set (map fst (columns df))"
    and "''Close'' \<notin> set (map fst (columns df))"
  shows "length (snd (snd (process_data df))) = present_cells df \<and>
         (\<forall>r \<in> set (snd (snd (process_data df))).
            Close r \<noteq> None \<and> ano r = year (Datetime r) \<and>
            mes r = month (Datetime r) \<and> dia r = day (Datetime r)) \<and>
         (present_cells df = 0 \<longrightarrow> snd (process_data df) = ([], []))"
proof -
  have count: "length (snd (snd (process_data df))) = present_cells df"
  proof (cases "df_empty df")
    case True
    with assms(1) show ?thesis
      by (simp add: process_data_rows present_cells_empty)
  next
    case False
    from assms(1) have "list_all (\<lambda>c. length (snd c) = length (index df)) (columns df)"
      by (simp add: rectangular_def)
    then show ?thesis
      using False assms(2,3) by (simp add: process_data_rows melted_count present_cells_def)
  qed
  have keys: "\<forall>r \<in> set (snd (snd (process_data df))).
            Close r \<noteq> None \<and> ano r = year (Datetime r) \<and>
            mes r = month (Datetime r) \<and> dia r = day (Datetime r)"
    using process_data_row_keys by blast
  have quiet: "fst (snd (process_data df)) = []"
    using assms(2,3) by (simp add: process_data_effects)
  have "present_cells df = 0 \<longrightarrow> snd (process_data df) = ([], [])"
  proof
    assume "present_cells df = 0"
    with count have "snd (snd (process_data df)) = []" by simp
    with quiet show "snd (process_data df) = ([], [])" by (simp add: prod_eq_iff)
  qed
  with count keys show ?thesis by blast
qed

text \<open>The scenario of the specification: three present cells, three records.\<close>

theorem process_data_one_record_per_present_cell_witness:
  "rectangular scenario \<and>
   ''Datetime'' \<notin> set (map fst (columns scenario)) \<and>
   ''Close'' \<notin> set (map fst (columns scenario)) \<and>
   present_cells scenario = 3 \<and>
   length (snd (snd (process_data scenario))) = 3"
proof -
  have a: "rectangular scenario"
    by (simp add: rectangular_def scenario_def)
  have b: "''Datetime'' \<notin> set (map fst (columns scenario))"
    by (simp add: scenario_def)
  have c: "''Close'' \<notin> set (map fst (columns scenario))"
    by (simp add: scenario_def)
  have d: "present_cells scenario = 3"
    by (simp add: present_cells_def scenario_def)
  from process_data_one_record_per_present_cell [OF a b c] a b c d show ?thesis
    by simp
qed

text \<open>
  A rectangular snapshot with one present cell for which no record is returned: the
  symbol \<open>Datetime\<close> makes \<^verbatim>\<open>reset_index\<close> raise, and the handler returns the empty frame.
\<close>

theorem process_data_reserved_symbol_counterexample:
  "rectangular reserved_symbol \<and> present_cells reserved_symbol = 1 \<and>
   snd (process_data reserved_symbol) =
     ([Log ERROR ''Error processing data: cannot insert Datetime, already exists''], [])"
  by (simp add: rectangular_def present_cells_def reserved_symbol_def process_data_def
      df_empty_def reset_index_def Let_def)

subsection \<open>Order of the records\<close>

lemma column_major_empty: "df_empty df \<Longrightarrow> column_major df = []"
  by (auto simp: df_empty_def column_major_def)

lemma triple_add_partition:
  "map (\<lambda>r. (Datetime r, Ticker r, Close r)) (map add_partition_columns rows) =
   map (\<lambda>r. (Datetime r, Ticker r, Close r)) rows"
  by (simp add: add_partition_columns_def)

lemma triples_of_column:
  "map (\<lambda>r. (Datetime r, Ticker r, Close r)) (dropna (melt_column ts c)) =
   map (\<lambda>tv. (fst tv, fst c, snd tv)) (filter (\<lambda>tv. snd tv \<noteq> None) (zip ts (snd c)))"
  by (simp add: dropna_def melt_column_def filter_map comp_def)

lemma triples_of_melted:
  "map (\<lambda>r. (Datetime r, Ticker r, Close r)) (dropna (concat (map (melt_column ts) cols))) =
   concat (map (\<lambda>c. map (\<lambda>tv. (fst tv, fst c, snd tv))
                        (filter (\<lambda>tv. snd tv \<noteq> None) (zip ts (snd c)))) cols)"
  by (induction cols) (simp_all add: dropna_append triples_of_column, simp add: dropna_def)

lemma triples_of_rows:
  "map (\<lambda>r. (Datetime r, Ticker r, Close r))
     (map add_partition_columns (dropna (concat (map (melt_column (index df)) (columns df))))) =
   column_major df"
  by (simp only: triple_add_partition triples_of_melted column_major_def)

text \<open>
  Claim C10. The records \<^verbatim>\<open>process_data\<close> returns are, read as (timestamp, symbol,
  price), the present cells of the snapshot listed symbol by symbol in column order and,
  within a symbol, in row order (or no record at all, when a symbol is called
  \<open>Datetime\<close> or \<open>Close\<close>); and a second call, on the snapshot object as the first call
  left it, returns the identical sequence and the identical log records.
\<close>

theorem process_data_column_major:
  "map (\<lambda>r. (Datetime r, Ticker r, Close r)) (snd (snd (process_data df))) =
     (if ''Datetime'' \<in> set (map fst (columns df)) \<or> ''Close'' \<in> set (map fst (columns df))
      then [] else column_major df) \<and>
   snd (process_data (fst (process_data df))) = snd (process_data df)"
proof -
  have first: "map (\<lambda>r. (Datetime r, Ticker r, Close r)) (snd (snd (process_data df))) =
     (if ''Datetime'' \<in> set (map fst (columns df)) \<or> ''Close'' \<in> set (map fst (columns df))
      then [] else column_major df)"
  proof (cases "df_empty df")
    case True
    then show ?thesis by (simp add: process_data_rows column_major_empty)
  next
    case False
    then show ?thesis
      using triples_of_rows [of df] by (simp add: process_data_rows)
  qed
  have again: "snd (process_data (fst (process_data df))) = snd (process_data df)"
    by (simp add: prod_eq_iff process_data_frame process_data_rows process_data_effects
        df_empty_def)
  from first again show ?thesis by blast
qed

text \<open>On the scenario: AAA at 09:30 and 09:31, then BBB at 09:31.\<close>

theorem process_data_column_major_witness:
  "map (\<lambda>r. (Datetime r, Ticker r, Close r)) (snd (snd (process_data scenario))) =
     [(t_0930, ''AAA'', Some 105), (t_0931, ''AAA'', Some 106), (t_0931, ''BBB'', Some 201)]"
proof -
  have "column_major scenario =
     [(t_0930, ''AAA'', Some 105), (t_0931, ''AAA'', Some 106), (t_0931, ''BBB'', Some 201)]"
    by (simp add: column_major_def scenario_def)
  with process_data_column_major [of scenario] show ?thesis
    by (simp add: scenario_def)
qed

subsection \<open>What the call does to its argument\<close>

text \<open>
  Claim C8, as amended. \<^verbatim>\<open>process_data\<close> leaves the rows, the columns and the cells
  of the snapshot it is given as they are, but on a snapshot that is not empty it sets
  the name of the snapshot's index to \<open>Datetime\<close>, in place; what it returns and logs
  does not depend on the name the index had; and its only other effect is at most one
  error record in the log.
\<close>

theorem process_data_sets_index_name:
  "fst (process_data df) =
     (if df_empty df then df else df\<lparr>index_name := Some ''Datetime''\<rparr>) \<and>
   snd (process_data (df\<lparr>index_name := n\<rparr>)) = snd (process_data df) \<and>
   (fst (snd (process_data df)) = [] \<or> (\<exists>m. fst (snd (process_data df)) = [Log ERROR m]))"
proof -
  have "fst (snd (process_data df)) = [] \<or> (\<exists>m. fst (snd (process_data df)) = [Log ERROR m])"
    by (simp add: process_data_effects)
  then show ?thesis
    by (simp add: prod_eq_iff process_data_frame process_data_rows process_data_effects
        df_empty_def)
qed

text \<open>The scenario's index has no name before the call and the name \<open>Datetime\<close> after it.\<close>

theorem process_data_changes_input_counterexample:
  "index_name scenario = None \<and>
   index_name (fst (process_data scenario)) = Some ''Datetime'' \<and>
   fst (process_data scenario) \<noteq> scenario"
  by (simp add: process_data_frame df_empty_def scenario_def)

section \<open>Properties of \<^verbatim>\<open>fetch_data\<close>\<close>

text \<open>
  Claim C3, as amended. On a transport or parse failure \<^verbatim>\<open>fetch_data\<close> raises nothing
  and returns the empty frame. When \<^verbatim>\<open>yf.download\<close> raises an \<open>Exception\<close> it logs the
  cause at error level; when \<^verbatim>\<open>yf.download\<close> comes back with an empty answer (as it
  does when it keeps a transport failure to itself) it logs only the warning that no data
  was returned, without a cause; when the answer has no \<open>Close\<close> field it logs that
  at error level. And whatever the upstream does, it is called exactly once.
\<close>

theorem fetch_data_returns_empty_frame_on_failure:
  "fetch_data (Inl (Exception e)) assets =
     ([Download assets, Log ERROR (''Error fetching data: '' @ e)], Inr empty_frame) \<and>
   (download_empty blank \<longrightarrow>
      fetch_data (Inr blank) assets =
        ([Download assets, Log WARNING ''No data returned from API.''], Inr empty_frame)) \<and>
   (\<not> download_empty data \<and> getitem data ''Close'' = None \<longrightarrow>
      fetch_data (Inr data) assets =
        ([Download assets, Log ERROR ''Column 'Close' not found in API response.''],
         Inr empty_frame)) \<and>
   length (filter (\<lambda>x. x = Download assets) (fst (fetch_data outcome assets))) = 1"
proof -
  have "length (filter (\<lambda>x. x = Download assets) (fst (fetch_data outcome assets))) = 1"
    by (auto simp: fetch_data_def split: sum.splits exn.splits option.splits)
  then show ?thesis
    by (simp add: fetch_data_def)
qed

text \<open>An answer without rows or columns, and an answer that holds opening prices only.\<close>

theorem fetch_data_returns_empty_frame_on_failure_witness:
  "download_empty no_answer \<and>
   fetch_data (Inr no_answer) ASSETS =
     ([Download ASSETS, Log WARNING ''No data returned from API.''], Inr empty_frame) \<and>
   \<not> download_empty no_quotes \<and> getitem no_quotes ''Close'' = None \<and>
   fetch_data (Inr no_quotes) ASSETS =
     ([Download ASSETS, Log ERROR ''Column 'Close' not found in API response.''],
      Inr empty_frame)"
proof -
  have g: "download_empty no_answer"
    by (simp add: no_answer_def download_empty_def)
  have h: "\<not> download_empty no_quotes \<and> getitem no_quotes ''Close'' = None"
    by (simp add: no_quotes_def download_empty_def getitem_def)
  from fetch_data_returns_empty_frame_on_failure
         [of "''x''" ASSETS no_answer no_quotes "Inr no_quotes"] g h
  show ?thesis by blast
qed

text \<open>
  A transport failure gives the caller the empty frame, the very value it gets when the
  upstream answers with no data: no error value carries the cause.
\<close>

theorem fetch_data_no_error_surfaces_counterexample:
  "snd (fetch_data (Inl (Exception ''connection timed out'') :: exn + int download) ASSETS) =
     Inr empty_frame \<and>
   snd (fetch_data (Inl (Exception ''connection timed out'') :: exn + int download) ASSETS) =
   snd (fetch_data
          (Inr \<lparr>d_index_name = None, d_index = [], d_columns = []\<rparr> :: exn + int download)
          ASSETS)"
  by (simp add: fetch_data_def download_empty_def)

section \<open>Properties of \<^verbatim>\<open>save_to_datalake\<close>\<close>

text \<open>
  Claim C7. For the empty record sequence and any store root, \<^verbatim>\<open>save_to_datalake\<close> is a
  no-op: whatever the clock and the file system would do, the store after the call is
  the store before it (no directory and no file is created), the call makes no outside
  call at all (\<^verbatim>\<open>to_parquet\<close> is not reached, nothing is logged), and it returns.
\<close>

theorem save_to_datalake_empty_noop:
  "save_to_datalake now d [] base_path st = (st, [], None)"
  by (simp add: save_to_datalake_def)

text \<open>
  Claim C4, as amended. When \<^verbatim>\<open>to_parquet\<close> raises an \<open>Exception\<close> on a batch that is
  not empty, \<^verbatim>\<open>save_to_datalake\<close> has called it once, logs one error record made of a
  fixed prefix and the text of the cause (nothing else: the partition is in it only if
  the cause's own text holds it), leaves the store as the failed write left it, and
  returns normally, as it does after a write that succeeded.
\<close>

theorem save_to_datalake_logs_and_returns_on_failure:
  assumes "df \<noteq> []" and "snd (to_parquet d df base_path st) = Some (Exception e)"
  shows "save_to_datalake now d df base_path st =
           (fst (to_parquet d df base_path st),
            [Now, ToParquet base_path, Log ERROR (''Error saving to Data Lake: '' @ e)], None) \<and>
         snd (snd (save_to_datalake now Writes df base_path st)) = None"
proof -
  obtain st1 r where tp: "to_parquet d df base_path st = (st1, r)"
    by (cases "to_parquet d df base_path st")
  with assms(2) have r: "r = Some (Exception e)" by simp
  have ok: "snd (to_parquet Writes df base_path st) = None"
    by (simp add: to_parquet_def Let_def)
  obtain st2 where "to_parquet Writes df base_path st = (st2, None)"
    using ok by (cases "to_parquet Writes df base_path st") simp
  with assms(1) tp r show ?thesis
    by (simp add: save_to_datalake_def Let_def)
qed

text \<open>
  The disk fills while the second write of the day rewrites the partition file: the call
  logs the cause and returns, and the file that held the first record is torn.
\<close>

theorem save_to_datalake_logs_and_returns_on_failure_witness:
  "[quote_0931] \<noteq> [] \<and>
   snd (to_parquet (Tears 0 (Exception ''No space left on device'')) [quote_0931] BASE_PATH
          first_write) = Some (Exception ''No space left on device'') \<and>
   snd (save_to_datalake t_0931 (Tears 0 (Exception ''No space left on device'')) [quote_0931]
          BASE_PATH first_write) =
     ([Now, ToParquet BASE_PATH, Log ERROR ''Error saving to Data Lake: No space left on device''],
      None) \<and>
   files first_write (part_file BASE_PATH (2024, 1, 2)) = Some (Part [data_columns quote_0930]) \<and>
   files (fst (save_to_datalake t_0931 (Tears 0 (Exception ''No space left on device''))
                 [quote_0931] BASE_PATH first_write))
     (part_file BASE_PATH (2024, 1, 2)) = Some Torn"
proof -
  have a: "[quote_0931] \<noteq> []" by simp
  have b: "snd (to_parquet (Tears 0 (Exception ''No space left on device'')) [quote_0931]
                  BASE_PATH first_write) = Some (Exception ''No space left on device'')"
    by (simp add: to_parquet_def Let_def)
  have c: "files first_write (part_file BASE_PATH (2024, 1, 2)) =
             Some (Part [data_columns quote_0930])"
    by (simp add: first_write_def save_to_datalake_def to_parquet_def write_group_def
        part_file_def partition_key_def quote_0930_def BASE_PATH_def empty_store_def Let_def)
  have d: "files (fst (to_parquet (Tears 0 (Exception ''No space left on device''))
                         [quote_0931] BASE_PATH first_write))
             (part_file BASE_PATH (2024, 1, 2)) = Some Torn"
    by (simp add: to_parquet_def tear_def partition_key_def quote_0931_def Let_def)
  from save_to_datalake_logs_and_returns_on_failure [OF a b, of t_0931] a b c d show ?thesis
    by simp
qed

text \<open>
  On a full disk the call returns what it returns after a successful write, and nothing
  was stored.
\<close>

theorem save_to_datalake_failure_looks_like_success_counterexample:
  "snd (snd (save_to_datalake t_0930 (Refuses (Exception ''No space left on device''))
               [quote_0930] BASE_PATH empty_store)) = None \<and>
   snd (snd (save_to_datalake t_0930 Writes [quote_0930] BASE_PATH empty_store)) = None \<and>
   fst (save_to_datalake t_0930 (Refuses (Exception ''No space left on device''))
          [quote_0930] BASE_PATH empty_store) = empty_store"
  by (simp add: save_to_datalake_def to_parquet_def Let_def quote_0930_def)

subsection \<open>Which files a write touches\<close>

lemma save_to_datalake_ignores_clock:
  "save_to_datalake now d df base_path st = save_to_datalake now' d df base_path st"
  by (simp add: save_to_datalake_def Let_def)

lemma part_file_inj: "part_file root k = part_file root k' \<longleftrightarrow> k = k'"
  by (cases k; cases k') (simp add: part_file_def)

lemma fold_write_group_files:
  "files (fold (write_group root df) ks st) (part_file root k) =
     (if k \<in> set ks
      then Some (Part (map data_columns (filter (\<lambda>r. partition_key r = k) df)))
      else files st (part_file root k))"
  by (induction ks arbitrary: st) (auto simp: write_group_def part_file_inj)

lemma part_file_not_summary: "part_file root k \<noteq> [Name root, Name n]"
  by (cases k) (simp add: part_file_def)

lemma to_parquet_replaces_partition_file:
  assumes "r \<in> set df"
  shows "files (fst (to_parquet Writes df root st)) (part_file root (partition_key r)) =
           Some (Part (map data_columns (filter (\<lambda>x. partition_key x = partition_key r) df)))"
proof -
  from assms have "partition_key r \<in> set (sort (remdups (map partition_key df)))" by simp
  then show ?thesis
    by (simp add: to_parquet_def Let_def fold_write_group_files part_file_not_summary)
qed

lemma save_to_datalake_replaces_partition_file:
  assumes "r \<in> set df"
  shows "files (fst (save_to_datalake now Writes df root st))
           (part_file root (partition_key r)) =
           Some (Part (map data_columns (filter (\<lambda>x. partition_key x = partition_key r) df)))"
proof -
  from assms have ne: "df \<noteq> []" by auto
  obtain st1 where tp: "to_parquet Writes df root st = (st1, None)"
    by (cases "to_parquet Writes df root st") (simp add: to_parquet_def Let_def)
  with to_parquet_replaces_partition_file [OF assms, of root st] ne show ?thesis
    by (simp add: save_to_datalake_def Let_def)
qed

text \<open>
  Claim C2 does not hold of the code. Two writes of one process, at 09:30:00 and at
  09:31:00, each of one record of 2 January 2024: both go to the same file
  \<^verbatim>\<open>datalake/ano=2024/mes=1/dia=2/part.0.parquet\<close>. After the second write that file
  holds the second record only, and the store has the files it had after the first: the
  file was rewritten, and the name \<^verbatim>\<open>market_data_HHMMSS.parquet\<close> the source computes
  from the clock names no file.
\<close>

theorem second_write_replaces_first:
  "files first_write (part_file BASE_PATH (2024, 1, 2)) = Some (Part [data_columns quote_0930]) \<and>
   files second_write (part_file BASE_PATH (2024, 1, 2)) = Some (Part [data_columns quote_0931]) \<and>
   dom (files second_write) = dom (files first_write)"
  by (simp add: second_write_def first_write_def save_to_datalake_def to_parquet_def
      write_group_def part_file_def partition_key_def quote_0930_def quote_0931_def
      BASE_PATH_def empty_store_def Let_def)

section \<open>Properties of the scheduler loop\<close>

lemma store_emit [simp]: "store (emit xs s) = store s"
  by (simp add: emit_def)

lemma trace_emit [simp]: "trace (emit xs s) = trace s @ xs"
  by (simp add: emit_def)

subsection \<open>Every pass starts with a fetch\<close>

lemma fetch_data_starts_with_download:
  "\<exists>fx. fst (fetch_data a assets) = Download assets # fx"
  by (auto simp: fetch_data_def split: sum.splits exn.splits option.splits)

lemma stages_trace_grows: "\<exists>rest. trace (fst (stages ev df s)) = trace s @ rest"
proof -
  obtain d1 px recs where pd: "process_data df = (d1, px, recs)"
    by (cases "process_data df")
  obtain st1 sx r
    where sv: "save_to_datalake (clock ev) (fs ev) recs BASE_PATH (store (emit px s)) = (st1, sx, r)"
    by (cases "save_to_datalake (clock ev) (fs ev) recs BASE_PATH (store (emit px s))")
  show ?thesis
    using pd sv by (simp add: stages_def)
qed

lemma loop_body_trace_starts:
  "\<exists>rest. trace (fst (loop_body ev s)) =
     trace s @ Log INFO ''Fetching market data...'' # Download ASSETS # rest"
proof -
  obtain fx r where f: "fetch_data (api ev) ASSETS = (Download ASSETS # fx, r)"
    using fetch_data_starts_with_download [of "api ev" ASSETS]
    by (cases "fetch_data (api ev) ASSETS") auto
  show ?thesis
  proof (cases r)
    case (Inl e)
    with f show ?thesis by (simp add: loop_body_def)
  next
    case (Inr df)
    obtain s1 r1
      where st: "stages ev df (emit (Log INFO ''Fetching market data...'' # Download ASSETS # fx) s) =
                   (s1, r1)"
      by (cases "stages ev df (emit (Log INFO ''Fetching market data...'' # Download ASSETS # fx) s)")
    obtain rest1
      where g: "trace s1 =
                  trace (emit (Log INFO ''Fetching market data...'' # Download ASSETS # fx) s) @ rest1"
      using stages_trace_grows
              [of ev df "emit (Log INFO ''Fetching market data...'' # Download ASSETS # fx) s"] st
      by auto
    from f Inr st g show ?thesis
      by (cases r1; cases "fault ev"; cases "nap ev") (simp_all add: loop_body_def)
  qed
qed

lemma cycle_trace_starts:
  "\<exists>rest. trace (fst (cycle ev s)) =
     trace s @ Log INFO ''Fetching market data...'' # Download ASSETS # rest"
proof -
  obtain s1 r where b: "loop_body ev s = (s1, r)" by (cases "loop_body ev s")
  obtain rest1
    where g: "trace s1 = trace s @ Log INFO ''Fetching market data...'' # Download ASSETS # rest1"
    using loop_body_trace_starts [of ev s] b by auto
  show ?thesis
  proof (cases r)
    case None
    with b g show ?thesis by (simp add: cycle_def)
  next
    case (Some e)
    with b g show ?thesis by (cases e) (simp_all add: cycle_def)
  qed
qed

lemma main_loop_trace_grows: "\<exists>rest. trace (fst (main_loop evs s)) = trace s @ rest"
proof (induction evs arbitrary: s)
  case Nil
  then show ?case by simp
next
  case (Cons ev evs)
  obtain s1 st where c: "cycle ev s = (s1, st)" by (cases "cycle ev s")
  obtain rest1 where g: "trace s1 = trace s @ rest1"
    using cycle_trace_starts [of ev s] c by auto
  obtain rest2 where h: "trace (fst (main_loop evs s1)) = trace s1 @ rest2"
    using Cons.IH [of s1] by auto
  from c g h show ?case by (cases st) simp_all
qed

lemma main_loop_first_pass:
  "\<exists>rest. trace (fst (main_loop (ev # evs) s)) =
     trace s @ Log INFO ''Fetching market data...'' # Download ASSETS # rest"
proof -
  obtain s1 st where c: "cycle ev s = (s1, st)" by (cases "cycle ev s")
  obtain rest1
    where g: "trace s1 = trace s @ Log INFO ''Fetching market data...'' # Download ASSETS # rest1"
    using cycle_trace_starts [of ev s] c by auto
  obtain rest2 where h: "trace (fst (main_loop evs s1)) = trace s1 @ rest2"
    using main_loop_trace_grows [of evs s1] by auto
  from c g h show ?thesis by (cases st) simp_all
qed

subsection \<open>A pass whose fetch fails\<close>

lemma empty_frame_is_empty: "df_empty (empty_frame :: 'p DataFrame)"
  by (simp add: df_empty_def empty_frame_def)

lemma fetch_failed_result:
  "fetch_failed a \<Longrightarrow> snd (fetch_data a assets) = Inr empty_frame"
  by (auto simp: fetch_failed_def fetch_data_def split: sum.splits exn.splits)

lemma fetch_failed_logged:
  "fetch_failed a \<Longrightarrow>
   \<exists>lvl m. (lvl = ERROR \<or> lvl = WARNING) \<and> fst (fetch_data a assets) = [Download assets, Log lvl m]"
  by (auto simp: fetch_failed_def fetch_data_def split: sum.splits exn.splits)

lemma stages_empty_frame: "stages ev empty_frame s = (s, None)"
  by (simp add: stages_def empty_frame_is_empty)

lemma loop_body_fetch_failed:
  assumes "fetch_failed (api ev)"
  shows "loop_body ev s =
     (case fault ev of
        Some m \<Rightarrow>
          (emit (Log INFO ''Fetching market data...'' # fst (fetch_data (api ev) ASSETS)) s,
           Some (Exception m))
      | None \<Rightarrow>
         (emit [Log INFO ''Sleeping for 120 seconds...'', Sleep INTERVAL_SECONDS]
            (emit (Log INFO ''Fetching market data...'' # fst (fetch_data (api ev) ASSETS)) s),
          case nap ev of Slept \<Rightarrow> None | Interrupted \<Rightarrow> Some KeyboardInterrupt))"
proof -
  obtain fx where fx: "fetch_data (api ev) ASSETS = (fx, Inr empty_frame)"
    using fetch_failed_result [OF assms, of ASSETS] by (cases "fetch_data (api ev) ASSETS") simp
  show ?thesis
    by (simp add: loop_body_def fx stages_empty_frame split: option.splits sleep.splits)
qed

lemma quiet_pass_after_failed_fetch:
  assumes "fetch_failed (api ev)" and "fault ev = None" and "nap ev = Slept"
  shows "cycle ev s =
           (emit (Log INFO ''Fetching market data...'' # fst (fetch_data (api ev) ASSETS) @
                  [Log INFO ''Sleeping for 120 seconds...'', Sleep 120]) s, Running)"
  using assms(2,3)
  by (simp add: cycle_def loop_body_fetch_failed [OF assms(1)] emit_def INTERVAL_SECONDS_def)

text \<open>
  Claim C5, as amended. In every pass of the loop whose fetch fails, the store after the
  pass is the store before it; the pass logs the failed fetch right after the download
  (at error level, or as the warning that no data was returned when the answer is
  empty), and \<^verbatim>\<open>to_parquet\<close> is not called in it. When, besides, no unexpected fault is
  raised and no stop signal comes in the rest of the pass, the pass ends with
  \<^verbatim>\<open>time.sleep(120)\<close>, the loop is still running, and whatever comes next the loop
  starts the next pass right after that sleep, with its log record and its download.
\<close>

theorem failed_fetch_cycle_writes_nothing_and_next_pass_follows:
  assumes "fetch_failed (api ev)"
  shows "store (fst (cycle ev s)) = store s \<and>
         (\<exists>lvl m rest. (lvl = ERROR \<or> lvl = WARNING) \<and>
            trace (fst (cycle ev s)) =
              trace s @ [Log INFO ''Fetching market data...'', Download ASSETS, Log lvl m] @ rest \<and>
            ToParquet BASE_PATH \<notin> set rest) \<and>
         (fault ev = None \<and> nap ev = Slept \<longrightarrow>
            main_loop [ev] s =
              (emit (Log INFO ''Fetching market data...'' # fst (fetch_data (api ev) ASSETS) @
                     [Log INFO ''Sleeping for 120 seconds...'', Sleep 120]) s, Running) \<and>
            store (fst (main_loop [ev] s)) = store s \<and>
            (\<exists>rest. trace (fst (main_loop (ev # ev2 # evs) s)) =
               trace s @ Log INFO ''Fetching market data...'' # fst (fetch_data (api ev) ASSETS) @
                 [Log INFO ''Sleeping for 120 seconds...'', Sleep 120,
                  Log INFO ''Fetching market data...'', Download ASSETS] @ rest))"
proof -
  obtain lvl m where lvl: "lvl = ERROR \<or> lvl = WARNING"
    and m: "fst (fetch_data (api ev) ASSETS) = [Download ASSETS, Log lvl m]"
    using fetch_failed_logged [OF assms] by blast
  note body = loop_body_fetch_failed [OF assms, of s]
  have a: "store (fst (cycle ev s)) = store s"
    by (simp add: cycle_def body split: option.splits sleep.splits)
  have "\<exists>rest. trace (fst (cycle ev s)) =
              trace s @ [Log INFO ''Fetching market data...'', Download ASSETS, Log lvl m] @ rest \<and>
              ToParquet BASE_PATH \<notin> set rest"
    by (cases "fault ev"; cases "nap ev") (simp_all add: cycle_def body m)
  with lvl have b: "\<exists>lvl m rest. (lvl = ERROR \<or> lvl = WARNING) \<and>
            trace (fst (cycle ev s)) =
              trace s @ [Log INFO ''Fetching market data...'', Download ASSETS, Log lvl m] @ rest \<and>
            ToParquet BASE_PATH \<notin> set rest"
    by blast
  have c: "main_loop [ev] s =
              (emit (Log INFO ''Fetching market data...'' # fst (fetch_data (api ev) ASSETS) @
                     [Log INFO ''Sleeping for 120 seconds...'', Sleep 120]) s, Running) \<and>
            store (fst (main_loop [ev] s)) = store s \<and>
            (\<exists>rest. trace (fst (main_loop (ev # ev2 # evs) s)) =
               trace s @ Log INFO ''Fetching market data...'' # fst (fetch_data (api ev) ASSETS) @
                 [Log INFO ''Sleeping for 120 seconds...'', Sleep 120,
                  Log INFO ''Fetching market data...'', Download ASSETS] @ rest)"
    if quiet: "fault ev = None \<and> nap ev = Slept"
  proof -
    from quiet have q: "cycle ev s =
           (emit (Log INFO ''Fetching market data...'' # fst (fetch_data (api ev) ASSETS) @
                  [Log INFO ''Sleeping for 120 seconds...'', Sleep 120]) s, Running)"
      using quiet_pass_after_failed_fetch [OF assms] by simp
    obtain rest where
      "trace (fst (main_loop (ev2 # evs)
          (emit (Log INFO ''Fetching market data...'' # fst (fetch_data (api ev) ASSETS) @
                  [Log INFO ''Sleeping for 120 seconds...'', Sleep 120]) s))) =
       trace (emit (Log INFO ''Fetching market data...'' # fst (fetch_data (api ev) ASSETS) @
                  [Log INFO ''Sleeping for 120 seconds...'', Sleep 120]) s) @
       Log INFO ''Fetching market data...'' # Download ASSETS # rest"
      using main_loop_first_pass by blast
    with q show ?thesis by simp
  qed
  from a b c show ?thesis by blast
qed

text \<open>
  A pass in which the upstream answers with nothing, then a pass in which the download
  times out, from the state the service starts in: the whole trace of the loop.
\<close>

theorem failed_fetch_cycle_witness:
  "fetch_failed (api silence) \<and> fault silence = None \<and> nap silence = Slept \<and>
   main_loop [silence, outage] started =
     (\<lparr>trace = [Log INFO ''Starting Financial Data Ingestion Service...'',
                Log INFO ''Fetching market data...'', Download ASSETS,
                Log WARNING ''No data returned from API.'',
                Log INFO ''Sleeping for 120 seconds...'', Sleep 120,
                Log INFO ''Fetching market data...'', Download ASSETS,
                Log ERROR ''Error fetching data: connection timed out'',
                Log INFO ''Sleeping for 120 seconds...'', Sleep 120],
       store = empty_store\<rparr>, Running)"
proof -
  have h: "fetch_failed (api silence)"
    by (simp add: fetch_failed_def silence_def download_empty_def)
  have k: "fetch_failed (api outage)"
    by (simp add: fetch_failed_def outage_def)
  have c1: "cycle silence s =
      (emit [Log INFO ''Fetching market data...'', Download ASSETS,
             Log WARNING ''No data returned from API.'',
             Log INFO ''Sleeping for 120 seconds...'', Sleep 120] s, Running)"
    for s :: "int state"
    using quiet_pass_after_failed_fetch [OF h, of s]
    by (simp add: silence_def fetch_data_def download_empty_def)
  have c2: "cycle outage s =
      (emit [Log INFO ''Fetching market data...'', Download ASSETS,
             Log ERROR ''Error fetching data: connection timed out'',
             Log INFO ''Sleeping for 120 seconds...'', Sleep 120] s, Running)"
    for s :: "int state"
    using quiet_pass_after_failed_fetch [OF k, of s]
    by (simp add: outage_def fetch_data_def)
  from failed_fetch_cycle_writes_nothing_and_next_pass_follows [OF h, of started outage "[]"] h
  show ?thesis
    by (simp add: c1 c2 emit_def started_def) (simp add: silence_def)
qed

text \<open>
  Two passes whose fetch fails and that the next pass does not follow after 120 seconds.
  In the first an unexpected fault is raised after the failed fetch: the loop sleeps 60
  seconds, not 120. In the second the stop signal comes during the sleep: the loop ends,
  and the pass that was to follow does not run.
\<close>

theorem failed_fetch_cycle_short_delay_or_stop_counterexample:
  "fetch_failed (api glitch) \<and>
   main_loop [glitch] started =
     (\<lparr>trace = [Log INFO ''Starting Financial Data Ingestion Service...'',
                Log INFO ''Fetching market data...'', Download ASSETS,
                Log ERROR ''Error fetching data: connection timed out'',
                Log CRITICAL ''Critical error in main loop: out of memory'', Sleep 60],
       store = empty_store\<rparr>, Running) \<and>
   fetch_failed (api cut_short) \<and>
   main_loop [cut_short, outage] started =
     (\<lparr>trace = [Log INFO ''Starting Financial Data Ingestion Service...'',
                Log INFO ''Fetching market data...'', Download ASSETS,
                Log ERROR ''Error fetching data: connection timed out'',
                Log INFO ''Sleeping for 120 seconds...'', Sleep 120,
                Log INFO ''Service stopped by user.''],
       store = empty_store\<rparr>, Stopped)"
  by (simp add: fetch_failed_def glitch_def cut_short_def cycle_def loop_body_def
      fetch_data_def stages_empty_frame emit_def started_def INTERVAL_SECONDS_def)

subsection \<open>What ends the loop\<close>

lemma fetch_data_raises:
  "snd (fetch_data a assets) = Inl e \<Longrightarrow> a = Inl KeyboardInterrupt \<and> e = KeyboardInterrupt"
  by (auto simp: fetch_data_def split: sum.splits exn.splits if_splits option.splits)

lemma to_parquet_raises:
  "snd (to_parquet d df root st) = Some KeyboardInterrupt \<Longrightarrow> raises_interrupt d"
  by (auto simp: to_parquet_def raises_interrupt_def Let_def split: disk.splits)

lemma save_raises:
  assumes "snd (snd (save_to_datalake now d df root st)) = Some e"
  shows "e = KeyboardInterrupt \<and> raises_interrupt d"
proof -
  obtain st1 r where tp: "to_parquet d df root st = (st1, r)"
    by (cases "to_parquet d df root st")
  from assms tp have "r = Some KeyboardInterrupt \<and> e = KeyboardInterrupt"
    by (auto simp: save_to_datalake_def Let_def split: if_splits option.splits exn.splits)
  with tp to_parquet_raises [of d df root st] show ?thesis by simp
qed

lemma stages_raises:
  assumes "snd (stages ev df s) = Some e"
  shows "e = KeyboardInterrupt \<and> raises_interrupt (fs ev)"
proof -
  obtain d1 px recs where pd: "process_data df = (d1, px, recs)"
    by (cases "process_data df")
  obtain st1 sx r
    where sv: "save_to_datalake (clock ev) (fs ev) recs BASE_PATH (store (emit px s)) = (st1, sx, r)"
    by (cases "save_to_datalake (clock ev) (fs ev) recs BASE_PATH (store (emit px s))")
  from assms pd sv have "r = Some e"
    by (auto simp: stages_def split: if_splits)
  with sv save_raises [of "clock ev" "fs ev" recs BASE_PATH "store (emit px s)" e]
  show ?thesis by simp
qed

lemma loop_body_interrupt:
  assumes "snd (loop_body ev s) = Some KeyboardInterrupt"
  shows "stop_signal ev"
proof -
  obtain fx r where f: "fetch_data (api ev) ASSETS = (fx, r)"
    by (cases "fetch_data (api ev) ASSETS")
  show ?thesis
  proof (cases r)
    case (Inl e)
    with f fetch_data_raises [of "api ev" ASSETS e] show ?thesis
      by (simp add: stop_signal_def)
  next
    case (Inr df)
    obtain s1 r1
      where st: "stages ev df (emit (Log INFO ''Fetching market data...'' # fx) s) = (s1, r1)"
      by (cases "stages ev df (emit (Log INFO ''Fetching market data...'' # fx) s)")
    show ?thesis
    proof (cases r1)
      case (Some e)
      with st stages_raises [of ev df "emit (Log INFO ''Fetching market data...'' # fx) s" e]
      show ?thesis by (simp add: stop_signal_def)
    next
      case None
      with assms f Inr st show ?thesis
        by (auto simp: loop_body_def stop_signal_def split: option.splits sleep.splits)
    qed
  qed
qed

lemma cycle_not_running:
  assumes "snd (cycle ev s) \<noteq> Running"
  shows "stop_signal ev"
proof -
  obtain s1 r where b: "loop_body ev s = (s1, r)" by (cases "loop_body ev s")
  show ?thesis
  proof (cases r)
    case None
    with assms b show ?thesis by (simp add: cycle_def)
  next
    case (Some e)
    show ?thesis
    proof (cases e)
      case KeyboardInterrupt
      with b Some loop_body_interrupt [of ev s] show ?thesis by simp
    next
      case (Exception m)
      with assms b Some show ?thesis
        by (auto simp: cycle_def stop_signal_def split: sleep.splits)
    qed
  qed
qed

lemma main_loop_not_running:
  "snd (main_loop evs s) \<noteq> Running \<Longrightarrow> \<exists>ev \<in> set evs. stop_signal ev"
proof (induction evs arbitrary: s)
  case Nil
  then show ?case by simp
next
  case (Cons ev evs)
  obtain s1 st where c: "cycle ev s = (s1, st)" by (cases "cycle ev s")
  show ?case
  proof (cases st)
    case Running
    with Cons.prems c have "snd (main_loop evs s1) \<noteq> Running" by simp
    from Cons.IH [OF this] show ?thesis by auto
  next
    case Stopped
    with c cycle_not_running [of ev s] show ?thesis by simp
  next
    case Killed
    with c cycle_not_running [of ev s] show ?thesis by simp
  qed
qed

text \<open>
  Claim C6. When the \<^verbatim>\<open>try\<close> body of a pass raises an \<open>Exception\<close>, the loop logs it as
  critical and calls \<^verbatim>\<open>time.sleep(60)\<close>; unless the stop signal cuts that sleep short,
  the loop is still running after the pass and, whatever comes next, starts the next pass
  right after that sleep, with its log record and its download. When the body raises
  \<open>KeyboardInterrupt\<close> the loop logs that the service was stopped and ends. And over any
  sequence of passes, from any state, the loop is left only in a pass that the stop
  signal reached: no \<open>Exception\<close>, caught in a stage or in the loop, ends it.
\<close>

theorem critical_failure_backs_off_and_only_interrupt_ends_loop:
  "(snd (loop_body ev s) = Some (Exception m) \<longrightarrow>
      fst (cycle ev s) =
        emit [Log CRITICAL (''Critical error in main loop: '' @ m), Sleep 60]
          (fst (loop_body ev s)) \<and>
      (backoff ev = Slept \<longrightarrow>
         snd (cycle ev s) = Running \<and>
         main_loop [ev] s =
           (emit [Log CRITICAL (''Critical error in main loop: '' @ m), Sleep 60]
              (fst (loop_body ev s)), Running) \<and>
         (\<exists>more. trace (fst (main_loop (ev # ev2 # rest) s)) =
            trace (fst (loop_body ev s)) @
              [Log CRITICAL (''Critical error in main loop: '' @ m), Sleep 60,
               Log INFO ''Fetching market data...'', Download ASSETS] @ more))) \<and>
   (snd (loop_body ev s) = Some KeyboardInterrupt \<longrightarrow>
      main_loop (ev # rest) s =
        (emit [Log INFO ''Service stopped by user.''] (fst (loop_body ev s)), Stopped)) \<and>
   (snd (main_loop evs s0) \<noteq> Running \<longrightarrow> (\<exists>ev \<in> set evs. stop_signal ev))"
proof -
  obtain s1 r where b: "loop_body ev s = (s1, r)" by (cases "loop_body ev s")
  have a: "fst (cycle ev s) =
        emit [Log CRITICAL (''Critical error in main loop: '' @ m), Sleep 60]
          (fst (loop_body ev s)) \<and>
      (backoff ev = Slept \<longrightarrow>
         snd (cycle ev s) = Running \<and>
         main_loop [ev] s =
           (emit [Log CRITICAL (''Critical error in main loop: '' @ m), Sleep 60]
              (fst (loop_body ev s)), Running) \<and>
         (\<exists>more. trace (fst (main_loop (ev # ev2 # rest) s)) =
            trace (fst (loop_body ev s)) @
              [Log CRITICAL (''Critical error in main loop: '' @ m), Sleep 60,
               Log INFO ''Fetching market data...'', Download ASSETS] @ more))"
    if crit: "snd (loop_body ev s) = Some (Exception m)"
  proof -
    from crit b have r: "r = Some (Exception m)" by simp
    have c: "fst (cycle ev s) =
        emit [Log CRITICAL (''Critical error in main loop: '' @ m), Sleep 60] s1"
      by (simp add: cycle_def b r)
    have d: "snd (cycle ev s) = Running \<and>
         main_loop [ev] s =
           (emit [Log CRITICAL (''Critical error in main loop: '' @ m), Sleep 60] s1, Running) \<and>
         (\<exists>more. trace (fst (main_loop (ev # ev2 # rest) s)) =
            trace s1 @
              [Log CRITICAL (''Critical error in main loop: '' @ m), Sleep 60,
               Log INFO ''Fetching market data...'', Download ASSETS] @ more)"
      if slept: "backoff ev = Slept"
    proof -
      have q: "cycle ev s =
          (emit [Log CRITICAL (''Critical error in main loop: '' @ m), Sleep 60] s1, Running)"
        by (simp add: cycle_def b r slept)
      obtain more where
        "trace (fst (main_loop (ev2 # rest)
            (emit [Log CRITICAL (''Critical error in main loop: '' @ m), Sleep 60] s1))) =
         trace (emit [Log CRITICAL (''Critical error in main loop: '' @ m), Sleep 60] s1) @
         Log INFO ''Fetching market data...'' # Download ASSETS # more"
        using main_loop_first_pass by blast
      with q show ?thesis by simp
    qed
    from c d b show ?thesis by simp
  qed
  have e: "main_loop (ev # rest) s =
        (emit [Log INFO ''Service stopped by user.''] (fst (loop_body ev s)), Stopped)"
    if "snd (loop_body ev s) = Some KeyboardInterrupt"
    using that b by (simp add: cycle_def)
  from a e main_loop_not_running [of evs s0] show ?thesis by blast
qed

text \<open>
  A pass that runs out of memory after a failed fetch, followed by a pass during the
  outage: the whole trace of the loop, which backs off for 60 seconds, runs the second
  pass and is running after both. And a pass that the stop signal cuts short during its
  sleep: the loop ends there, and the pass that was to follow does not run.
\<close>

theorem critical_failure_witness:
  "snd (loop_body glitch started) = Some (Exception ''out of memory'') \<and>
   backoff glitch = Slept \<and>
   main_loop [glitch, outage] started =
     (\<lparr>trace = [Log INFO ''Starting Financial Data Ingestion Service...'',
                Log INFO ''Fetching market data...'', Download ASSETS,
                Log ERROR ''Error fetching data: connection timed out'',
                Log CRITICAL ''Critical error in main loop: out of memory'', Sleep 60,
                Log INFO ''Fetching market data...'', Download ASSETS,
                Log ERROR ''Error fetching data: connection timed out'',
                Log INFO ''Sleeping for 120 seconds...'', Sleep 120],
       store = empty_store\<rparr>, Running) \<and>
   snd (loop_body cut_short started) = Some KeyboardInterrupt \<and>
   stop_signal cut_short \<and>
   snd (main_loop [cut_short, outage] started) = Stopped"
proof -
  have b: "loop_body glitch started =
     (\<lparr>trace = [Log INFO ''Starting Financial Data Ingestion Service...'',
                Log INFO ''Fetching market data...'', Download ASSETS,
                Log ERROR ''Error fetching data: connection timed out''],
       store = empty_store\<rparr>, Some (Exception ''out of memory''))"
    by (simp add: loop_body_def glitch_def fetch_data_def stages_empty_frame emit_def started_def)
  have c: "loop_body outage s =
     (emit [Log INFO ''Fetching market data...'', Download ASSETS,
            Log ERROR ''Error fetching data: connection timed out'',
            Log INFO ''Sleeping for 120 seconds...'', Sleep INTERVAL_SECONDS] s, None)"
    for s :: "int state"
    by (simp add: loop_body_def outage_def fetch_data_def stages_empty_frame emit_def)
  have d: "snd (loop_body cut_short started) = Some KeyboardInterrupt"
    by (simp add: loop_body_def cut_short_def fetch_data_def stages_empty_frame)
  have e: "stop_signal cut_short"
    by (simp add: stop_signal_def cut_short_def)
  from critical_failure_backs_off_and_only_interrupt_ends_loop
         [of glitch started "''out of memory''" outage "[]" "[glitch, outage]" started] b
  have f: "main_loop [glitch, outage] started =
     (\<lparr>trace = [Log INFO ''Starting Financial Data Ingestion Service...'',
                Log INFO ''Fetching market data...'', Download ASSETS,
                Log ERROR ''Error fetching data: connection timed out'',
                Log CRITICAL ''Critical error in main loop: out of memory'', Sleep 60,
                Log INFO ''Fetching market data...'', Download ASSETS,
                Log ERROR ''Error fetching data: connection timed out'',
                Log INFO ''Sleeping for 120 seconds...'', Sleep 120],
       store = empty_store\<rparr>, Running)"
    by (simp add: cycle_def c emit_def glitch_def INTERVAL_SECONDS_def)
  from critical_failure_backs_off_and_only_interrupt_ends_loop
         [of cut_short started "''x''" outage "[outage]" "[]" started] d
  have g: "snd (main_loop [cut_short, outage] started) = Stopped"
    by simp
  from b d e f g show ?thesis by (simp add: glitch_def)
qed

section \<open>Properties of the dashboard\<close>

text \<open>
  Claim C9. For every store path, when the store is missing or holds no records,
  \<^verbatim>\<open>load_data\<close> returns the empty frame and raises nothing; and for the dashboard's
  own path its \<^verbatim>\<open>main\<close> raises nothing, draws no chart, and ends on a message: the
  warning that the directory was not found when the store is missing, otherwise (after
  the error box of \<^verbatim>\<open>load_data\<close>, if reading raised) the note that no data is
  available yet.
\<close>

theorem dashboard_tolerates_missing_or_empty_store:
  assumes "no_records v path"
  shows "snd (load_data v path) = Inr [] \<and>
         (path = DATA_PATH \<longrightarrow>
            dashboard_main v page =
              (if path_exists v DATA_PATH
               then StTitle ''Financial Market Data Analysis'' # fst (load_data v DATA_PATH) @
                      [StInfo ''No data available in the Data Lake yet.'']
               else [StTitle ''Financial Market Data Analysis'',
                     StWarning
                       ''Data Lake directory not found. Please run the ingestor script first.''],
               None))"
proof -
  have a: "snd (load_data v path) = Inr []"
    using assms
    by (auto simp: no_records_def load_data_def split: if_splits sum.splits exn.splits)
  have b: "dashboard_main v page =
              (if path_exists v DATA_PATH
               then StTitle ''Financial Market Data Analysis'' # fst (load_data v DATA_PATH) @
                      [StInfo ''No data available in the Data Lake yet.'']
               else [StTitle ''Financial Market Data Analysis'',
                     StWarning
                       ''Data Lake directory not found. Please run the ingestor script first.''],
               None)" if "path = DATA_PATH"
  proof (cases "path_exists v DATA_PATH")
    case False
    then show ?thesis by (simp add: dashboard_main_def)
  next
    case True
    obtain out r where l: "load_data v DATA_PATH = (out, r)"
      by (cases "load_data v DATA_PATH")
    with a that have "r = Inr []" by simp
    with l True show ?thesis by (simp add: dashboard_main_def)
  qed
  from a b show ?thesis by blast
qed

text \<open>A store directory that exists and holds no file.\<close>

theorem dashboard_tolerates_missing_or_empty_store_witness:
  "no_records bare_directory DATA_PATH \<and>
   load_data bare_directory DATA_PATH =
     ([StError ''Error loading data: No files in dir''], Inr []) \<and>
   dashboard_main bare_directory (\<lambda>df. []) =
     ([StTitle ''Financial Market Data Analysis'',
       StError ''Error loading data: No files in dir'',
       StInfo ''No data available in the Data Lake yet.''], None)"
proof -
  have h: "no_records bare_directory DATA_PATH"
    by (simp add: no_records_def bare_directory_def)
  have l: "load_data bare_directory DATA_PATH =
             ([StError ''Error loading data: No files in dir''], Inr [])"
    by (simp add: load_data_def bare_directory_def)
  from dashboard_tolerates_missing_or_empty_store [OF h, of "\<lambda>df. []"] h l show ?thesis
    by (simp add: bare_directory_def)
qed

end
